theory Spec2Isabelle
  imports Main
begin

section \<open>Python values\<close>

text \<open>
  A Python \<open>str\<close> is a sequence of Unicode code points, and both \<open>[:500]\<close> and
  \<open>strip()\<close> work on code points. A string is therefore a list of code points
  (natural numbers); \<open>str\<close> embeds an ASCII literal.
\<close>

type_synonym pystr = "nat list"

definition str :: "string \<Rightarrow> pystr" where
  "str s = map of_char s"

text \<open>
  The code points for which \<open>str.isspace()\<close> holds: these are the characters that
  \<open>str.strip()\<close> without an argument removes.
\<close>

definition isspace :: "nat \<Rightarrow> bool" where
  "isspace c \<longleftrightarrow>
     (0x09 \<le> c \<and> c \<le> 0x0D) \<or> (0x1C \<le> c \<and> c \<le> 0x20) \<or> c = 0x85 \<or> c = 0xA0 \<or>
     c = 0x1680 \<or> (0x2000 \<le> c \<and> c \<le> 0x200A) \<or> c = 0x2028 \<or> c = 0x2029 \<or>
     c = 0x202F \<or> c = 0x205F \<or> c = 0x3000"

definition strip :: "pystr \<Rightarrow> pystr" where
  "strip s = rev (dropWhile isspace (rev (dropWhile isspace s)))"

text \<open>Python's \<open>a or b\<close> on strings: \<open>a\<close> when it is truthy (non-empty), else \<open>b\<close>.\<close>

definition py_or :: "pystr \<Rightarrow> pystr \<Rightarrow> pystr" where
  "py_or a b = (if a = [] then b else a)"

text \<open>The same on an \<open>Optional[str]\<close>: \<open>None\<close> and \<open>""\<close> are both falsy.\<close>

definition truthy :: "pystr option \<Rightarrow> bool" where
  "truthy a = (case a of None \<Rightarrow> False | Some s \<Rightarrow> s \<noteq> [])"

definition opt_or :: "pystr option \<Rightarrow> pystr \<Rightarrow> pystr" where
  "opt_or a b = (case a of None \<Rightarrow> b | Some s \<Rightarrow> py_or s b)"

text \<open>
  The values a document field holds: \<open>None\<close>, a string, a list of strings, a
  timestamp. \<open>VTime t\<close> stands for the datetime \<open>t\<close> in whatever encoding it arrives.
\<close>

datatype val = VNone | VStr pystr | VList "pystr list" | VTime int

text \<open>A \<open>dict\<close> with string keys, in insertion order; \<open>dict_get\<close> is \<open>dict.get(k, default)\<close>.\<close>

type_synonym dict = "(pystr \<times> val) list"

definition dict_get :: "dict \<Rightarrow> pystr \<Rightarrow> val \<Rightarrow> val" where
  "dict_get d k dflt = (case map_of d k of None \<Rightarrow> dflt | Some v \<Rightarrow> v)"

section \<open>Data model\<close>

text \<open>Modelled from the spec: the inbound shape \<open>RawArticle\<close> of \<open>schemas.py\<close>, whose
  declaration is missing: url (string, required), source (string), title (string),
  content (optional string), published_at (optional timestamp), ticker (optional string).
\<close>

record RawArticle =
  url :: pystr
  source :: pystr
  title :: pystr
  content :: "pystr option"
  published_at :: "int option"
  ticker :: "pystr option"

text \<open>Modelled from the spec: the stored shape \<open>NewsArticle\<close> of \<open>schemas.py\<close>, with the
  fields that the constructor call in \<open>ingest_article\<close> passes.
\<close>

record NewsArticle =
  url :: pystr
  source :: pystr
  title_en :: "pystr option"
  title_ko :: pystr
  summary_ko :: pystr
  sentiment :: pystr
  published_at :: "int option"
  tags :: "pystr list"
  ticker :: "pystr option"

text \<open>\<open>class NewsResponse(BaseModel)\<close> of \<open>main.py\<close>.\<close>

record NewsResponse =
  id' :: pystr
  source :: pystr
  title_ko :: pystr
  summary_ko :: pystr
  sentiment :: pystr
  published_at :: "int option"
  tags :: "pystr list option"
  ticker :: "pystr option"

text \<open>
  A document of the store. The store assigns \<open>_id\<close> on insertion, so every stored
  document has one; \<open>doc_id\<close> is its string form, \<open>str(it.get("_id"))\<close>.
\<close>

record document =
  doc_id :: pystr
  doc_fields :: dict

text \<open>The object that a successful ingest returns, \<open>{"id": inserted_id, "status": "ok"}\<close>.\<close>

record ingest_result =
  id' :: pystr
  status :: pystr

section \<open>Errors\<close>

text \<open>
  \<open>HTTPException\<close> is what the handlers raise themselves. \<open>ValidationFailure\<close> is the
  rejection of a request body by the framework, \<open>ValidationError\<close> the failure of a
  model constructor inside a handler; the other three are the storage gateway's.
\<close>

datatype error =
    HTTPException nat pystr
  | ValidationFailure
  | ValidationError
  | StorageUnavailable
  | WriteFailure pystr
  | ReadFailure pystr

text \<open>Modelled from the spec: the status the framework answers with. An \<open>HTTPException\<close>
  carries its own, a rejected body is 422, any other exception leaving a handler is 500.
\<close>

fun status_code :: "error \<Rightarrow> nat" where
  "status_code (HTTPException c d) = c"
| "status_code ValidationFailure = 422"
| "status_code e = 500"

section \<open>Storage gateway\<close>

text \<open>Modelled from the spec: the document store behind \<open>database.py\<close>, which is
  missing. A store has named collections of documents in storage order, an
  identifier supply (\<open>oid_of\<close> applied to the number of identifiers issued so far), and
  \<open>fault\<close>, the message of the error the underlying store answers with, if it is failing.
\<close>

record store =
  colls :: "(pystr \<times> document list) list"
  fault :: "pystr option"
  issued :: nat
  oid_of :: "nat \<Rightarrow> pystr"

datatype gateway_call =
    CreateDocument pystr NewsArticle
  | GetDocuments pystr dict int

text \<open>
  The process: the module-level connection handle \<open>db\<close> (\<open>None\<close> when there is no
  connection), the two environment variables the diagnostics read, and the calls made to
  the storage gateway so far.
\<close>

record env =
  db :: "store option"
  DATABASE_URL :: "pystr option"
  DATABASE_NAME :: "pystr option"
  calls :: "gateway_call list"

definition find_docs :: "(pystr \<times> document list) list \<Rightarrow> pystr \<Rightarrow> document list" where
  "find_docs cs c = (case map_of cs c of None \<Rightarrow> [] | Some ds \<Rightarrow> ds)"

fun insert_one :: "(pystr \<times> document list) list \<Rightarrow> pystr \<Rightarrow> document \<Rightarrow> (pystr \<times> document list) list" where
  "insert_one [] c d = [(c, [d])]"
| "insert_one ((c', ds) # cs) c d =
     (if c' = c then (c', ds @ [d]) # cs else (c', ds) # insert_one cs c d)"

text \<open>An optional value as a document field: \<open>None\<close> stays \<open>None\<close>.\<close>

definition opt_val :: "('a \<Rightarrow> val) \<Rightarrow> 'a option \<Rightarrow> val" where
  "opt_val f x = (case x of None \<Rightarrow> VNone | Some y \<Rightarrow> f y)"

text \<open>Modelled from the spec: the document written for a \<open>NewsArticle\<close>, which has the
  fields the spec lists for the stored shape (source, title_en, title_ko, summary_ko,
  sentiment, published_at, tags, ticker), an absent optional field being \<open>None\<close>.
\<close>

definition model_dump :: "NewsArticle \<Rightarrow> dict" where
  "model_dump a =
     [(str ''source'', VStr (NewsArticle.source a)),
      (str ''title_en'', opt_val VStr (title_en a)),
      (str ''title_ko'', VStr (NewsArticle.title_ko a)),
      (str ''summary_ko'', VStr (NewsArticle.summary_ko a)),
      (str ''sentiment'', VStr (NewsArticle.sentiment a)),
      (str ''published_at'', opt_val VTime (NewsArticle.published_at a)),
      (str ''tags'', VList (NewsArticle.tags a)),
      (str ''ticker'', opt_val VStr (NewsArticle.ticker a))]"

text \<open>Modelled from the spec: \<open>create_document\<close> of \<open>database.py\<close>, the gateway's
  \<open>insert(collectionName, document) -> identifier\<close>. It writes one document to the named
  collection and returns the storage-assigned identifier as a string; it fails with
  \<open>StorageUnavailable\<close> if no connection exists and with \<open>WriteFailure\<close> on an
  underlying write error.
\<close>

definition create_document :: "env \<Rightarrow> pystr \<Rightarrow> NewsArticle \<Rightarrow> (error + pystr) \<times> env" where
  "create_document e c a =
     (let e1 = e\<lparr>calls := calls e @ [CreateDocument c a]\<rparr> in
      case db e of
        None \<Rightarrow> (Inl StorageUnavailable, e1)
      | Some s \<Rightarrow>
          (case fault s of
             Some m \<Rightarrow> (Inl (WriteFailure m), e1)
           | None \<Rightarrow>
               (let i = oid_of s (issued s);
                    d = \<lparr>doc_id = i, doc_fields = model_dump a\<rparr>;
                    s' = s\<lparr>colls := insert_one (colls s) c d, issued := Suc (issued s)\<rparr>
                in (Inr i, e1\<lparr>db := Some s'\<rparr>))))"

text \<open>Modelled from the spec: a filter is a mapping of field name to exact-match value, and
  the empty mapping filters nothing.
\<close>

definition matches :: "dict \<Rightarrow> document \<Rightarrow> bool" where
  "matches f d = list_all (\<lambda>(k, v). map_of (doc_fields d) k = Some v) f"

text \<open>Modelled from the spec: \<open>get_documents\<close> of \<open>database.py\<close>, the gateway's
  \<open>query(collectionName, filter, limit) -> sequence of documents\<close>. The limit bounds the
  number of returned documents, the order is the store's; it fails with
  \<open>StorageUnavailable\<close> when there is no connection and with \<open>ReadFailure\<close> on an
  underlying read error, and returns the empty sequence when nothing matches.
\<close>

definition get_documents :: "env \<Rightarrow> pystr \<Rightarrow> dict \<Rightarrow> int \<Rightarrow> (error + document list) \<times> env" where
  "get_documents e c f limit =
     (let e1 = e\<lparr>calls := calls e @ [GetDocuments c f limit]\<rparr> in
      case db e of
        None \<Rightarrow> (Inl StorageUnavailable, e1)
      | Some s \<Rightarrow>
          (case fault s of
             Some m \<Rightarrow> (Inl (ReadFailure m), e1)
           | None \<Rightarrow> (Inr (take (nat limit) (filter (matches f) (find_docs (colls s) c))), e1)))"

text \<open>Modelled from the spec: \<open>db.list_collection_names()\<close> of the database driver, which
  raises an exception with the store's message when the store is failing.
\<close>

definition list_collection_names :: "store \<Rightarrow> pystr + pystr list" where
  "list_collection_names s = (case fault s of Some m \<Rightarrow> Inl m | None \<Rightarrow> Inr (map fst (colls s)))"

text \<open>The documents of the \<open>news\<close> collection, in storage order.\<close>

definition news_docs :: "env \<Rightarrow> document list" where
  "news_docs e = (case db e of None \<Rightarrow> [] | Some s \<Rightarrow> find_docs (colls s) (str ''news''))"

section \<open>Ingest\<close>

text \<open>The \<open>NewsArticle\<close> that \<open>ingest_article\<close> builds from the payload.\<close>

definition ingest_doc :: "RawArticle \<Rightarrow> NewsArticle" where
  "ingest_doc payload =
     (let title_ko = title payload in
      \<lparr>NewsArticle.url = RawArticle.url payload,
       source = RawArticle.source payload,
       title_en = None,
       title_ko = title_ko,
       summary_ko = py_or (take 500 (strip (opt_or (content payload) []))) [0xC694, 0xC57D, 0x20, 0xC5C6, 0xC74C],
       sentiment = str ''neutral'',
       published_at = RawArticle.published_at payload,
       tags = [],
       ticker = RawArticle.ticker payload\<rparr>)"

definition ingest_article :: "env \<Rightarrow> RawArticle \<Rightarrow> (error + ingest_result) \<times> env" where
  "ingest_article e payload =
     (case db e of
        None \<Rightarrow> (Inl (HTTPException 500 (str ''Database not available'')), e)
      | Some _ \<Rightarrow>
          (case create_document e (str ''news'') (ingest_doc payload) of
             (Inl err, e') \<Rightarrow> (Inl err, e')
           | (Inr inserted_id, e') \<Rightarrow> (Inr \<lparr>id' = inserted_id, status = str ''ok''\<rparr>, e')))"

section \<open>List\<close>

text \<open>
  The filter that \<open>list_news\<close> builds: \<open>if sentiment:\<close> and \<open>if ticker:\<close> test
  truthiness, so a parameter enters the filter when it is neither \<open>None\<close> nor \<open>""\<close>.
\<close>

definition build_filter :: "pystr option \<Rightarrow> pystr option \<Rightarrow> dict" where
  "build_filter sentiment' ticker' =
     (let f = [];
          f = (if truthy sentiment' then f @ [(str ''sentiment'', VStr (the sentiment'))] else f);
          f = (if truthy ticker' then f @ [(str ''ticker'', VStr (the ticker'))] else f)
      in f)"

text \<open>
  What the constructor of \<open>NewsResponse\<close> accepts for a field of each declared type;
  anything else makes it raise a \<open>ValidationError\<close>. (Its further coercions, such as
  parsing a date out of a string, are outside this model: \<open>VTime\<close> stands for every
  accepted encoding of a datetime.)
\<close>

fun as_str :: "val \<Rightarrow> error + pystr" where
  "as_str (VStr s) = Inr s"
| "as_str v = Inl ValidationError"

fun as_opt_str :: "val \<Rightarrow> error + pystr option" where
  "as_opt_str VNone = Inr None"
| "as_opt_str (VStr s) = Inr (Some s)"
| "as_opt_str v = Inl ValidationError"

fun as_opt_datetime :: "val \<Rightarrow> error + int option" where
  "as_opt_datetime VNone = Inr None"
| "as_opt_datetime (VTime t) = Inr (Some t)"
| "as_opt_datetime v = Inl ValidationError"

fun as_opt_list :: "val \<Rightarrow> error + pystr list option" where
  "as_opt_list VNone = Inr None"
| "as_opt_list (VList xs) = Inr (Some xs)"
| "as_opt_list v = Inl ValidationError"

text \<open>An exception propagates: the rest runs only on a value.\<close>

definition sum_bind :: "error + 'a \<Rightarrow> ('a \<Rightarrow> error + 'b) \<Rightarrow> error + 'b" where
  "sum_bind m f = (case m of Inl err \<Rightarrow> Inl err | Inr x \<Rightarrow> f x)"

text \<open>The \<open>NewsResponse(...)\<close> built for one retrieved document \<open>it\<close>.\<close>

definition response_of :: "document \<Rightarrow> error + NewsResponse" where
  "response_of it =
     (let d = doc_fields it in
      sum_bind (as_str (dict_get d (str ''source'') (VStr []))) (\<lambda>source'.
      sum_bind (as_str (dict_get d (str ''title_ko'') (dict_get d (str ''title_en'') (VStr [])))) (\<lambda>title_ko'.
      sum_bind (as_str (dict_get d (str ''summary_ko'') (VStr []))) (\<lambda>summary_ko'.
      sum_bind (as_str (dict_get d (str ''sentiment'') (VStr (str ''neutral'')))) (\<lambda>sentiment'.
      sum_bind (as_opt_datetime (dict_get d (str ''published_at'') VNone)) (\<lambda>published_at'.
      sum_bind (as_opt_list (dict_get d (str ''tags'') (VList []))) (\<lambda>tags'.
      sum_bind (as_opt_str (dict_get d (str ''ticker'') VNone)) (\<lambda>ticker'.
      Inr \<lparr>NewsResponse.id' = doc_id it,
           source = source',
           title_ko = title_ko',
           summary_ko = summary_ko',
           sentiment = sentiment',
           published_at = published_at',
           tags = tags',
           ticker = ticker'\<rparr>))))))))"

text \<open>The loop \<open>for it in items: results.append(NewsResponse(...))\<close>.\<close>

fun responses :: "document list \<Rightarrow> NewsResponse list \<Rightarrow> error + NewsResponse list" where
  "responses [] results = Inr results"
| "responses (it # items) results =
     (case response_of it of
        Inl err \<Rightarrow> Inl err
      | Inr r \<Rightarrow> responses items (results @ [r]))"

definition list_news :: "env \<Rightarrow> int \<Rightarrow> pystr option \<Rightarrow> pystr option \<Rightarrow> (error + NewsResponse list) \<times> env" where
  "list_news e limit sentiment' ticker' =
     (case db e of
        None \<Rightarrow> (Inl (HTTPException 500 (str ''Database not available'')), e)
      | Some _ \<Rightarrow>
          (let f = build_filter sentiment' ticker' in
           case get_documents e (str ''news'') f limit of
             (Inl err, e') \<Rightarrow> (Inl err, e')
           | (Inr items, e') \<Rightarrow>
               (case responses items [] of
                  Inl err \<Rightarrow> (Inl err, e')
                | Inr results \<Rightarrow> (Inr results, e'))))"

section \<open>Request validation\<close>

text \<open>Modelled from the spec: the validation of a request body against \<open>RawArticle\<close>, done
  by the framework before \<open>ingest_article\<close> runs. A field of type string must be present
  and a string; an optional field may be missing or \<open>None\<close>. A body that does not fit is
  rejected with \<open>ValidationFailure\<close>.
\<close>

definition validate_RawArticle :: "dict \<Rightarrow> error + RawArticle" where
  "validate_RawArticle body =
     (case map_of body (str ''url'') of
        Some (VStr u) \<Rightarrow>
          (case map_of body (str ''source'') of
             Some (VStr s) \<Rightarrow>
               (case map_of body (str ''title'') of
                  Some (VStr t) \<Rightarrow>
                    (case as_opt_str (dict_get body (str ''content'') VNone) of
                       Inr c \<Rightarrow>
                         (case as_opt_datetime (dict_get body (str ''published_at'') VNone) of
                            Inr p \<Rightarrow>
                              (case as_opt_str (dict_get body (str ''ticker'') VNone) of
                                 Inr k \<Rightarrow>
                                   Inr \<lparr>RawArticle.url = u, source = s, title = t, content = c,
                                        published_at = p, ticker = k\<rparr>
                               | Inl err \<Rightarrow> Inl ValidationFailure)
                          | Inl err \<Rightarrow> Inl ValidationFailure)
                     | Inl err \<Rightarrow> Inl ValidationFailure)
                | _ \<Rightarrow> Inl ValidationFailure)
           | _ \<Rightarrow> Inl ValidationFailure)
      | _ \<Rightarrow> Inl ValidationFailure)"

text \<open>Modelled from the spec: the route \<open>POST /api/ingest\<close>, which validates the body and
  calls the handler only with a valid payload.
\<close>

definition post_api_ingest :: "env \<Rightarrow> dict \<Rightarrow> (error + ingest_result) \<times> env" where
  "post_api_ingest e body =
     (case validate_RawArticle body of
        Inl err \<Rightarrow> (Inl err, e)
      | Inr payload \<Rightarrow> ingest_article e payload)"

section \<open>Diagnostics\<close>

text \<open>The \<open>response\<close> dictionary of \<open>test_database\<close>.\<close>

record diagnostics =
  backend :: pystr
  database :: pystr
  database_url :: "pystr option"
  database_name :: "pystr option"
  connection_status :: pystr
  collections :: "pystr list"

text \<open>
  The body of the outer \<open>try\<close>: it returns the exception that leaves it, if any, and
  \<open>response\<close> as mutated up to that point. The inner \<open>try\<close> catches what
  \<open>list_collection_names\<close> raises.
\<close>

definition test_database_try :: "env \<Rightarrow> diagnostics \<Rightarrow> pystr option \<times> diagnostics" where
  "test_database_try e response =
     (case db e of
        Some d \<Rightarrow>
          (let response = response\<lparr>database := [0x2705] @ str '' Available''\<rparr>;
               response = response\<lparr>database_url :=
                 Some (if truthy (DATABASE_URL e) then [0x2705] @ str '' Set''
                       else [0x274C] @ str '' Not Set'')\<rparr>;
               response = response\<lparr>database_name :=
                 Some (opt_or (DATABASE_NAME e) ([0x274C] @ str '' Not Set''))\<rparr>;
               response = response\<lparr>connection_status := str ''Connected''\<rparr>
           in case list_collection_names d of
                Inr collections' \<Rightarrow>
                  (None, response\<lparr>collections := take 10 collections',
                                  database := [0x2705] @ str '' Connected & Working''\<rparr>)
              | Inl msg \<Rightarrow>
                  (None, response\<lparr>database :=
                     [0x26A0, 0xFE0F] @ str ''  Connected but Error: '' @ take 80 msg\<rparr>))
      | None \<Rightarrow>
          (None, response\<lparr>database := [0x26A0, 0xFE0F] @ str ''  Available but not initialized''\<rparr>))"

definition test_database :: "env \<Rightarrow> error + diagnostics" where
  "test_database e =
     (let response =
            \<lparr>backend = [0x2705] @ str '' Running'',
             database = [0x274C] @ str '' Not Available'',
             database_url = None,
             database_name = None,
             connection_status = str ''Not Connected'',
             collections = []\<rparr>
      in case test_database_try e response of
           (None, response) \<Rightarrow> Inr response
         | (Some msg, response) \<Rightarrow>
             Inr (response\<lparr>database := [0x274C] @ str '' Error: '' @ take 80 msg\<rparr>))"

section \<open>Example inputs\<close>

text \<open>
  A connected store with no documents, a process without a connection, the payload of
  the round trip and the same payload without content, and the process after one ingest.
\<close>

definition empty_store :: store where
  "empty_store = \<lparr>colls = [], fault = None, issued = 0, oid_of = (\<lambda>n. [0x61 + n])\<rparr>"

definition connected :: env where
  "connected = \<lparr>db = Some empty_store, DATABASE_URL = Some (str ''mongodb://db''),
     DATABASE_NAME = Some (str ''app''), calls = []\<rparr>"

definition disconnected :: env where
  "disconnected = \<lparr>db = None, DATABASE_URL = None, DATABASE_NAME = None, calls = []\<rparr>"

definition raw_hello :: RawArticle where
  "raw_hello = \<lparr>RawArticle.url = str ''http://x'', source = str ''S'', title = str ''T'',
     content = Some (str ''hello''), published_at = None, ticker = None\<rparr>"

definition raw_no_content :: RawArticle where
  "raw_no_content = \<lparr>RawArticle.url = str ''http://x'', source = str ''S'', title = str ''T'',
     content = None, published_at = None, ticker = None\<rparr>"

definition one_article :: env where
  "one_article = snd (ingest_article connected raw_hello)"

text \<open>A dict without one key, and a document that has \<open>title_en\<close> but no \<open>title_ko\<close> and no \<open>tags\<close>.\<close>

definition without_key :: "dict \<Rightarrow> pystr \<Rightarrow> dict" where
  "without_key d k = filter (\<lambda>kv. fst kv \<noteq> k) d"

definition doc_title_en :: document where
  "doc_title_en = \<lparr>doc_id = str ''abc'', doc_fields = [(str ''title_en'', VStr (str ''E''))]\<rparr>"

text \<open>
  A request body without \<open>url\<close>, a connected store that answers every operation with an
  error, and a connected store with twelve collections.
\<close>

definition body_no_url :: dict where
  "body_no_url = [(str ''source'', VStr (str ''S'')), (str ''title'', VStr (str ''T'')),
     (str ''content'', VStr (str ''hello''))]"

definition faulty :: env where
  "faulty = \<lparr>db = Some (empty_store\<lparr>colls := [(str ''news'', [])], fault := Some (str ''timeout'')\<rparr>),
     DATABASE_URL = Some (str ''mongodb://db''), DATABASE_NAME = None, calls = []\<rparr>"

definition twelve_collections :: env where
  "twelve_collections = \<lparr>db = Some (empty_store\<lparr>colls :=
      [(str ''a'', []),
       (str ''b'', []),
       (str ''c'', []),
       (str ''d'', []),
       (str ''e'', []),
       (str ''f'', []),
       (str ''g'', []),
       (str ''h'', []),
       (str ''i'', []),
       (str ''j'', []),
       (str ''k'', []),
       (str ''l'', [])]\<rparr>),
     DATABASE_URL = Some (str ''mongodb://db''), DATABASE_NAME = Some (str ''app''), calls = []\<rparr>"

text \<open>The response listed for the document that the round-trip payload is stored as.\<close>

definition hello_response :: NewsResponse where
  "hello_response = \<lparr>NewsResponse.id' = [0x61], source = str ''S'', title_ko = str ''T'',
     summary_ko = str ''hello'', sentiment = str ''neutral'', published_at = None,
     tags = Some [], ticker = None\<rparr>"

text \<open>A document that has every field.\<close>

definition doc_full :: document where
  "doc_full = \<lparr>doc_id = str ''f00'', doc_fields =
     [(str ''source'', VStr (str ''Reuters'')),
      (str ''title_en'', VStr (str ''E'')),
      (str ''title_ko'', VStr (str ''K'')),
      (str ''summary_ko'', VStr (str ''sum'')),
      (str ''sentiment'', VStr (str ''positive'')),
      (str ''published_at'', VTime 1700000000),
      (str ''tags'', VList [str ''x'', str ''y'']),
      (str ''ticker'', VStr (str ''AAPL''))]\<rparr>"

text \<open>
  Three listable documents, one that is not (its \<open>title_ko\<close> is \<open>None\<close>), the responses
  of the three, and two processes: one storing the three, one storing a listable document
  followed by the other.
\<close>

definition doc_a :: document where
  "doc_a = \<lparr>doc_id = str ''a1'', doc_fields =
     [(str ''source'', VStr (str ''S'')), (str ''title_ko'', VStr (str ''A'')),
      (str ''summary_ko'', VStr (str ''sa'')), (str ''sentiment'', VStr (str ''neutral''))]\<rparr>"

definition doc_b :: document where
  "doc_b = \<lparr>doc_id = str ''b2'', doc_fields =
     [(str ''source'', VStr (str ''S'')), (str ''title_ko'', VStr (str ''B'')),
      (str ''summary_ko'', VStr (str ''sb'')), (str ''sentiment'', VStr (str ''positive'')),
      (str ''ticker'', VStr (str ''AAPL''))]\<rparr>"

definition doc_c :: document where
  "doc_c = \<lparr>doc_id = str ''c3'', doc_fields =
     [(str ''source'', VStr (str ''S'')), (str ''title_ko'', VStr (str ''C'')),
      (str ''summary_ko'', VStr (str ''sc'')), (str ''sentiment'', VStr (str ''positive''))]\<rparr>"

definition doc_bad :: document where
  "doc_bad = \<lparr>doc_id = str ''d4'', doc_fields =
     [(str ''source'', VStr (str ''S'')), (str ''title_ko'', VNone),
      (str ''summary_ko'', VStr (str ''sd'')), (str ''sentiment'', VStr (str ''neutral''))]\<rparr>"

definition resp_a :: NewsResponse where
  "resp_a = \<lparr>NewsResponse.id' = str ''a1'', source = str ''S'', title_ko = str ''A'',
     summary_ko = str ''sa'', sentiment = str ''neutral'', published_at = None,
     tags = Some [], ticker = None\<rparr>"

definition resp_b :: NewsResponse where
  "resp_b = \<lparr>NewsResponse.id' = str ''b2'', source = str ''S'', title_ko = str ''B'',
     summary_ko = str ''sb'', sentiment = str ''positive'', published_at = None,
     tags = Some [], ticker = Some (str ''AAPL'')\<rparr>"

definition resp_c :: NewsResponse where
  "resp_c = \<lparr>NewsResponse.id' = str ''c3'', source = str ''S'', title_ko = str ''C'',
     summary_ko = str ''sc'', sentiment = str ''positive'', published_at = None,
     tags = Some [], ticker = None\<rparr>"

definition three_articles :: env where
  "three_articles = \<lparr>db = Some (empty_store\<lparr>colls := [(str ''news'', [doc_a, doc_b, doc_c])]\<rparr>),
     DATABASE_URL = None, DATABASE_NAME = None, calls = []\<rparr>"

definition good_and_bad :: env where
  "good_and_bad = \<lparr>db = Some (empty_store\<lparr>colls := [(str ''news'', [doc_a, doc_bad])]\<rparr>),
     DATABASE_URL = None, DATABASE_NAME = None, calls = []\<rparr>"

section \<open>Supporting lemmas\<close>

lemma map_of_insert_one: "map_of (insert_one cs c d) c = Some (find_docs cs c @ [d])"
  by (induction cs c d rule: insert_one.induct) (auto simp: find_docs_def)

lemma find_docs_insert_one: "find_docs (insert_one cs c d) c = find_docs cs c @ [d]"
  by (simp add: find_docs_def map_of_insert_one)

lemma ingest_article_stores:
  assumes "ingest_article e payload = (Inr r, e')"
  shows "news_docs e' = news_docs e @ [\<lparr>doc_id = ingest_result.id' r, doc_fields = model_dump (ingest_doc payload)\<rparr>]"
    and "status r = str ''ok''"
    and "calls e' = calls e @ [CreateDocument (str ''news'') (ingest_doc payload)]"
  using assms
  by (auto simp: ingest_article_def create_document_def news_docs_def Let_def find_docs_insert_one
      split: option.splits)

lemma ingest_article_last:
  assumes "ingest_article e payload = (Inr r, e')"
  shows "last (news_docs e') = \<lparr>doc_id = ingest_result.id' r, doc_fields = model_dump (ingest_doc payload)\<rparr>"
  by (simp add: ingest_article_stores(1)[OF assms])

lemma ingest_article_connected:
  assumes "db e = Some s" "fault s = None"
  shows "\<exists>r e'. ingest_article e payload = (Inr r, e')"
  using assms by (simp add: ingest_article_def create_document_def Let_def)

lemma model_dump_lookup:
  "map_of (model_dump a) (str ''source'') = Some (VStr (NewsArticle.source a))"
  "map_of (model_dump a) (str ''title_en'') = Some (opt_val VStr (title_en a))"
  "map_of (model_dump a) (str ''title_ko'') = Some (VStr (NewsArticle.title_ko a))"
  "map_of (model_dump a) (str ''summary_ko'') = Some (VStr (NewsArticle.summary_ko a))"
  "map_of (model_dump a) (str ''sentiment'') = Some (VStr (NewsArticle.sentiment a))"
  "map_of (model_dump a) (str ''published_at'') = Some (opt_val VTime (NewsArticle.published_at a))"
  "map_of (model_dump a) (str ''tags'') = Some (VList (NewsArticle.tags a))"
  "map_of (model_dump a) (str ''ticker'') = Some (opt_val VStr (NewsArticle.ticker a))"
  by (simp_all add: model_dump_def str_def)

lemma rev_split: "rev (dropWhile P (rev xs)) @ rev (takeWhile P (rev xs)) = xs"
proof -
  have "rev (takeWhile P (rev xs) @ dropWhile P (rev xs)) = xs" by simp
  then show ?thesis by (simp only: rev_append)
qed

lemma strip_decomp:
  "\<exists>a b. s = a @ strip s @ b \<and> list_all isspace a \<and> list_all isspace b"
proof -
  let ?t = "dropWhile isspace s"
  have 1: "s = takeWhile isspace s @ ?t" by simp
  have 3: "?t = strip s @ rev (takeWhile isspace (rev ?t))"
    unfolding strip_def by (rule rev_split[symmetric])
  have 4: "list_all isspace (takeWhile isspace s)"
    by (simp add: list_all_iff) (meson set_takeWhileD)
  have 5: "list_all isspace (rev (takeWhile isspace (rev ?t)))"
    by (simp add: list_all_iff) (meson set_takeWhileD)
  from 1 3 have "s = takeWhile isspace s @ strip s @ rev (takeWhile isspace (rev ?t))" by metis
  with 4 5 show ?thesis by blast
qed

lemma strip_ends:
  assumes "strip s \<noteq> []"
  shows "\<not> isspace (hd (strip s))" and "\<not> isspace (last (strip s))"
proof -
  let ?t = "dropWhile isspace s"
  let ?u = "dropWhile isspace (rev ?t)"
  have u: "?u \<noteq> []" using assms by (simp add: strip_def)
  then have "\<not> isspace (hd ?u)" by (rule hd_dropWhile)
  then show "\<not> isspace (last (strip s))" using u by (simp add: strip_def last_rev)
  have t: "?t \<noteq> []"
  proof
    assume "?t = []"
    then have "?u = []" by (metis dropWhile.simps(1) rev.simps(1))
    with u show False by simp
  qed
  then have ht: "\<not> isspace (hd ?t)" by (rule hd_dropWhile)
  have "?t = rev ?u @ rev (takeWhile isspace (rev ?t))" by (rule rev_split[symmetric])
  then have "hd ?t = hd (rev ?u)" using u by (metis hd_append2 rev_is_Nil_conv)
  then show "\<not> isspace (hd (strip s))" using ht by (simp add: strip_def)
qed

lemma ingest_connected_hello:
  "ingest_article connected raw_hello = (Inr \<lparr>ingest_result.id' = [0x61], status = str ''ok''\<rparr>, one_article)"
  by (simp add: one_article_def ingest_article_def create_document_def connected_def empty_store_def Let_def)

section \<open>Ingest: the stored summary\<close>

text \<open>
  Claim C1, as the code has it. After a successful ingest the \<open>news\<close> collection has one
  more document, the stored one. Its \<open>summary_ko\<close> is the first 500 characters of the
  payload's content stripped of leading and trailing whitespace (absent content counting
  as empty), unless that is empty: then it is the placeholder of five code points
  \<open>U+C694 U+C57D U+0020 U+C5C6 U+C74C\<close>. The stored \<open>summary_ko\<close> is never empty.
\<close>

theorem ingest_summary_ko:
  assumes "ingest_article e payload = (Inr r, e')"
  shows "news_docs e' = news_docs e @ [last (news_docs e')] \<and>
         map_of (doc_fields (last (news_docs e'))) (str ''summary_ko'') =
           Some (VStr (if take 500 (strip (case content payload of None \<Rightarrow> [] | Some c \<Rightarrow> c)) = []
                       then [0xC694, 0xC57D, 0x20, 0xC5C6, 0xC74C]
                       else take 500 (strip (case content payload of None \<Rightarrow> [] | Some c \<Rightarrow> c)))) \<and>
         map_of (doc_fields (last (news_docs e'))) (str ''summary_ko'') \<noteq> Some (VStr [])"
proof -
  have l: "last (news_docs e') = \<lparr>doc_id = ingest_result.id' r, doc_fields = model_dump (ingest_doc payload)\<rparr>"
    by (rule ingest_article_last[OF assms])
  have a: "news_docs e' = news_docs e @ [last (news_docs e')]"
    using ingest_article_stores(1)[OF assms] l by simp
  have o: "opt_or (content payload) [] = (case content payload of None \<Rightarrow> [] | Some c \<Rightarrow> c)"
    by (simp add: opt_or_def py_or_def split: option.splits)
  have s: "NewsArticle.summary_ko (ingest_doc payload) =
      (if take 500 (strip (case content payload of None \<Rightarrow> [] | Some c \<Rightarrow> c)) = []
       then [0xC694, 0xC57D, 0x20, 0xC5C6, 0xC74C]
       else take 500 (strip (case content payload of None \<Rightarrow> [] | Some c \<Rightarrow> c)))"
    unfolding ingest_doc_def Let_def o by (simp add: py_or_def)
  have n: "NewsArticle.summary_ko (ingest_doc payload) \<noteq> []"
    unfolding s by simp
  show ?thesis
    using a n by (simp add: l model_dump_lookup s)
qed

text \<open>The payload with content \<open>hello\<close> is stored with the summary \<open>hello\<close>.\<close>

theorem ingest_summary_ko_witness:
  "map_of (doc_fields (last (news_docs one_article))) (str ''summary_ko'') = Some (VStr (str ''hello''))"
  using ingest_summary_ko[OF ingest_connected_hello]
  by (simp add: raw_hello_def strip_def isspace_def str_def)

text \<open>
  Claim C1 as stated names the placeholder \<open>no summary available\<close>. A payload
  without content is stored with the five code points above, which are not that string.
\<close>

theorem ingest_placeholder_counterexample:
  "map_of (doc_fields (last (news_docs (snd (ingest_article connected raw_no_content))))) (str ''summary_ko'')
     = Some (VStr [0xC694, 0xC57D, 0x20, 0xC5C6, 0xC74C]) \<and>
   [0xC694, 0xC57D, 0x20, 0xC5C6, 0xC74C] \<noteq> str ''no summary available''"
  by (simp add: ingest_article_def create_document_def connected_def empty_store_def Let_def
      news_docs_def find_docs_def model_dump_def ingest_doc_def raw_no_content_def opt_or_def py_or_def
      strip_def str_def)

lemma as_str_Inr: "as_str v = Inr s \<longleftrightarrow> v = VStr s"
  by (cases v) auto

lemma as_opt_str_Inr: "as_opt_str v = Inr x \<longleftrightarrow> v = opt_val VStr x"
  by (cases v; cases x) (auto simp: opt_val_def)

lemma as_opt_datetime_Inr: "as_opt_datetime v = Inr x \<longleftrightarrow> v = opt_val VTime x"
  by (cases v; cases x) (auto simp: opt_val_def)

lemma as_opt_list_Inr: "as_opt_list v = Inr x \<longleftrightarrow> v = opt_val VList x"
  by (cases v; cases x) (auto simp: opt_val_def)

lemma sum_bind_Inr: "sum_bind m f = Inr y \<longleftrightarrow> (\<exists>x. m = Inr x \<and> f x = Inr y)"
  by (cases m) (auto simp: sum_bind_def)

lemma response_of_Inr:
  assumes "response_of it = Inr r"
  shows "NewsResponse.id' r = doc_id it"
    and "dict_get (doc_fields it) (str ''source'') (VStr []) = VStr (NewsResponse.source r)"
    and "dict_get (doc_fields it) (str ''title_ko'') (dict_get (doc_fields it) (str ''title_en'') (VStr []))
           = VStr (NewsResponse.title_ko r)"
    and "dict_get (doc_fields it) (str ''summary_ko'') (VStr []) = VStr (NewsResponse.summary_ko r)"
    and "dict_get (doc_fields it) (str ''sentiment'') (VStr (str ''neutral'')) = VStr (NewsResponse.sentiment r)"
    and "dict_get (doc_fields it) (str ''published_at'') VNone = opt_val VTime (NewsResponse.published_at r)"
    and "dict_get (doc_fields it) (str ''tags'') (VList []) = opt_val VList (NewsResponse.tags r)"
    and "dict_get (doc_fields it) (str ''ticker'') VNone = opt_val VStr (NewsResponse.ticker r)"
  using assms
  by (auto simp: response_of_def Let_def sum_bind_Inr as_str_Inr as_opt_str_Inr
      as_opt_datetime_Inr as_opt_list_Inr)

lemma response_of_stored:
  "response_of \<lparr>doc_id = i, doc_fields = model_dump (ingest_doc payload)\<rparr> =
     Inr \<lparr>NewsResponse.id' = i,
          source = RawArticle.source payload,
          title_ko = title payload,
          summary_ko = NewsArticle.summary_ko (ingest_doc payload),
          sentiment = str ''neutral'',
          published_at = RawArticle.published_at payload,
          tags = Some [],
          ticker = RawArticle.ticker payload\<rparr>"
  by (simp add: response_of_def Let_def dict_get_def model_dump_lookup sum_bind_def opt_val_def
      ingest_doc_def split: option.splits)

lemma response_of_iff:
  "response_of it = Inr r \<longleftrightarrow>
     NewsResponse.id' r = doc_id it \<and>
     dict_get (doc_fields it) (str ''source'') (VStr []) = VStr (NewsResponse.source r) \<and>
     dict_get (doc_fields it) (str ''title_ko'') (dict_get (doc_fields it) (str ''title_en'') (VStr []))
       = VStr (NewsResponse.title_ko r) \<and>
     dict_get (doc_fields it) (str ''summary_ko'') (VStr []) = VStr (NewsResponse.summary_ko r) \<and>
     dict_get (doc_fields it) (str ''sentiment'') (VStr (str ''neutral'')) = VStr (NewsResponse.sentiment r) \<and>
     dict_get (doc_fields it) (str ''published_at'') VNone = opt_val VTime (NewsResponse.published_at r) \<and>
     dict_get (doc_fields it) (str ''tags'') (VList []) = opt_val VList (NewsResponse.tags r) \<and>
     dict_get (doc_fields it) (str ''ticker'') VNone = opt_val VStr (NewsResponse.ticker r)"
  by (cases r)
     (auto simp: response_of_def Let_def sum_bind_Inr as_str_Inr as_opt_str_Inr
        as_opt_datetime_Inr as_opt_list_Inr)

section \<open>List: the response mapping\<close>

text \<open>
  Claim C5. A \<open>NewsResponse\<close> \<open>r\<close> is the one built for a retrieved document exactly when:
  its \<open>title_ko\<close> is the document's \<open>title_ko\<close>, or, when the document has none, its
  \<open>title_en\<close> (the empty string when that is missing too); its \<open>tags\<close> is the document's
  \<open>tags\<close>, or the empty sequence when the document has none; its identifier is the
  document's; and every other field is the document's field of that name, or the default
  of the list operation when the document lacks it. So a document whose fields have the
  declared types always gets a response, with each field copied.
\<close>

theorem response_of_fallbacks:
  "response_of it = Inr r \<longleftrightarrow>
     (case map_of (doc_fields it) (str ''title_ko'') of
        Some v \<Rightarrow> v = VStr (NewsResponse.title_ko r)
      | None \<Rightarrow>
          (case map_of (doc_fields it) (str ''title_en'') of
             Some v \<Rightarrow> v = VStr (NewsResponse.title_ko r)
           | None \<Rightarrow> NewsResponse.title_ko r = [])) \<and>
     (case map_of (doc_fields it) (str ''tags'') of
        Some v \<Rightarrow> v = opt_val VList (NewsResponse.tags r)
      | None \<Rightarrow> NewsResponse.tags r = Some []) \<and>
     NewsResponse.id' r = doc_id it \<and>
     (case map_of (doc_fields it) (str ''source'') of
        Some v \<Rightarrow> v = VStr (NewsResponse.source r)
      | None \<Rightarrow> NewsResponse.source r = []) \<and>
     (case map_of (doc_fields it) (str ''summary_ko'') of
        Some v \<Rightarrow> v = VStr (NewsResponse.summary_ko r)
      | None \<Rightarrow> NewsResponse.summary_ko r = []) \<and>
     (case map_of (doc_fields it) (str ''sentiment'') of
        Some v \<Rightarrow> v = VStr (NewsResponse.sentiment r)
      | None \<Rightarrow> NewsResponse.sentiment r = str ''neutral'') \<and>
     (case map_of (doc_fields it) (str ''published_at'') of
        Some v \<Rightarrow> v = opt_val VTime (NewsResponse.published_at r)
      | None \<Rightarrow> NewsResponse.published_at r = None) \<and>
     (case map_of (doc_fields it) (str ''ticker'') of
        Some v \<Rightarrow> v = opt_val VStr (NewsResponse.ticker r)
      | None \<Rightarrow> NewsResponse.ticker r = None)"
proof -
  have s: "dict_get d k (VStr a) = VStr b \<longleftrightarrow>
      (case map_of d k of Some v \<Rightarrow> v = VStr b | None \<Rightarrow> b = a)" for d k a b
    by (auto simp: dict_get_def split: option.splits)
  have t: "dict_get d k (dict_get d k' (VStr [])) = VStr b \<longleftrightarrow>
      (case map_of d k of Some v \<Rightarrow> v = VStr b
       | None \<Rightarrow> (case map_of d k' of Some v \<Rightarrow> v = VStr b | None \<Rightarrow> b = []))" for d k k' b
    by (auto simp: dict_get_def split: option.splits)
  have n: "dict_get d k VNone = opt_val VTime x \<longleftrightarrow>
      (case map_of d k of Some v \<Rightarrow> v = opt_val VTime x | None \<Rightarrow> x = None)" for d k x
    by (cases x) (auto simp: dict_get_def opt_val_def split: option.splits)
  have o: "dict_get d k VNone = opt_val VStr x \<longleftrightarrow>
      (case map_of d k of Some v \<Rightarrow> v = opt_val VStr x | None \<Rightarrow> x = None)" for d k x
    by (cases x) (auto simp: dict_get_def opt_val_def split: option.splits)
  have l: "dict_get d k (VList []) = opt_val VList x \<longleftrightarrow>
      (case map_of d k of Some v \<Rightarrow> v = opt_val VList x | None \<Rightarrow> x = Some [])" for d k x
    by (cases x) (auto simp: dict_get_def opt_val_def split: option.splits)
  show ?thesis
    unfolding response_of_iff s t l n o
    by blast
qed

text \<open>
  A document with only \<open>title_en\<close> gets that title and empty tags; a document with every
  field gets each of them copied, \<open>title_ko\<close> and not \<open>title_en\<close> as the title.
\<close>

theorem response_of_fallbacks_witness:
  "response_of doc_title_en =
     Inr \<lparr>NewsResponse.id' = str ''abc'', source = [], title_ko = str ''E'', summary_ko = [],
          sentiment = str ''neutral'', published_at = None, tags = Some [], ticker = None\<rparr> \<and>
   response_of doc_full =
     Inr \<lparr>NewsResponse.id' = str ''f00'', source = str ''Reuters'', title_ko = str ''K'',
          summary_ko = str ''sum'', sentiment = str ''positive'', published_at = Some 1700000000,
          tags = Some [str ''x'', str ''y''], ticker = Some (str ''AAPL'')\<rparr>"
  by (simp add: response_of_fallbacks doc_title_en_def doc_full_def opt_val_def str_def)

lemma map_of_without_key:
  "map_of (without_key d k) k' = (if k' = k then None else map_of d k')"
  by (induction d) (auto simp: without_key_def)

section \<open>Ingest: the English title\<close>

text \<open>
  Claim C10. Every document stored by the ingest operation has \<open>title_en\<close> set to
  \<open>None\<close>, whatever the payload. So for such a document the fallback value of the list
  operation, \<open>it.get("title_en", "")\<close>, is \<open>None\<close> and never a title: the response takes
  its \<open>title_ko\<close> from the stored \<open>title_ko\<close>, and were \<open>title_ko\<close> missing, building
  the response would fail instead of producing a title.
\<close>

theorem ingest_title_en_absent:
  assumes "ingest_article e payload = (Inr r, e')"
  shows "title_en (ingest_doc payload) = None \<and>
         news_docs e' = news_docs e @ [last (news_docs e')] \<and>
         map_of (doc_fields (last (news_docs e'))) (str ''title_en'') = Some VNone \<and>
         dict_get (doc_fields (last (news_docs e'))) (str ''title_en'') (VStr []) = VNone \<and>
         (\<exists>resp. response_of (last (news_docs e')) = Inr resp \<and> NewsResponse.title_ko resp = title payload) \<and>
         response_of ((last (news_docs e'))\<lparr>doc_fields :=
             without_key (doc_fields (last (news_docs e'))) (str ''title_ko'')\<rparr>) = Inl ValidationError"
proof -
  have l: "last (news_docs e') = \<lparr>doc_id = ingest_result.id' r, doc_fields = model_dump (ingest_doc payload)\<rparr>"
    by (rule ingest_article_last[OF assms])
  have a: "news_docs e' = news_docs e @ [last (news_docs e')]"
    using ingest_article_stores(1)[OF assms] l by simp
  have n: "title_en (ingest_doc payload) = None"
    by (simp add: ingest_doc_def Let_def)
  have x: "response_of \<lparr>doc_id = ingest_result.id' r,
      doc_fields = without_key (model_dump (ingest_doc payload)) (str ''title_ko'')\<rparr> = Inl ValidationError"
    by (simp add: response_of_def Let_def dict_get_def sum_bind_def map_of_without_key
        model_dump_lookup n opt_val_def) (simp add: str_def)
  show ?thesis
    using a n x by (simp add: l model_dump_lookup dict_get_def opt_val_def response_of_stored)
qed

text \<open>The document stored for the round-trip payload has \<open>title_en\<close> \<open>None\<close>.\<close>

theorem ingest_title_en_absent_witness:
  "map_of (doc_fields (last (news_docs one_article))) (str ''title_en'') = Some VNone"
  using ingest_title_en_absent[OF ingest_connected_hello] by simp

section \<open>Ingest: the stored sentiment\<close>

text \<open>
  Claim C4. After a successful ingest the \<open>news\<close> collection has one more document, the
  stored one, and its \<open>sentiment\<close> is exactly \<open>neutral\<close>, whatever the payload: the
  \<open>NewsArticle\<close> handed to the storage gateway already carries that constant.
\<close>

theorem ingest_sentiment_neutral:
  assumes "ingest_article e payload = (Inr r, e')"
  shows "news_docs e' = news_docs e @ [last (news_docs e')] \<and>
         map_of (doc_fields (last (news_docs e'))) (str ''sentiment'') = Some (VStr (str ''neutral'')) \<and>
         calls e' = calls e @ [CreateDocument (str ''news'') (ingest_doc payload)] \<and>
         NewsArticle.sentiment (ingest_doc payload) = str ''neutral''"
proof -
  have l: "last (news_docs e') = \<lparr>doc_id = ingest_result.id' r, doc_fields = model_dump (ingest_doc payload)\<rparr>"
    by (rule ingest_article_last[OF assms])
  have a: "news_docs e' = news_docs e @ [last (news_docs e')]"
    using ingest_article_stores(1)[OF assms] l by simp
  have s: "NewsArticle.sentiment (ingest_doc payload) = str ''neutral''"
    by (simp add: ingest_doc_def Let_def)
  show ?thesis
    using a ingest_article_stores(3)[OF assms] by (simp add: l model_dump_lookup s)
qed

text \<open>The document stored for the round-trip payload has the sentiment \<open>neutral\<close>.\<close>

theorem ingest_sentiment_neutral_witness:
  "map_of (doc_fields (last (news_docs one_article))) (str ''sentiment'') = Some (VStr (str ''neutral''))"
  using ingest_sentiment_neutral[OF ingest_connected_hello] by simp

section \<open>List: limit zero\<close>

text \<open>
  Claim C6. With a connection and a store that answers, a call to the list operation with
  \<open>limit = 0\<close> returns the empty sequence, whatever the filters and the stored documents.
\<close>

theorem list_news_limit_zero:
  assumes "db e = Some s" and "fault s = None"
  shows "fst (list_news e 0 sentiment' ticker') = Inr []"
  using assms by (simp add: list_news_def get_documents_def Let_def)

lemma one_article_db:
  "db one_article = Some (empty_store\<lparr>colls := [(str ''news'',
      [\<lparr>doc_id = [0x61], doc_fields = model_dump (ingest_doc raw_hello)\<rparr>])], issued := 1\<rparr>)"
  by (simp add: one_article_def ingest_article_def create_document_def connected_def
      empty_store_def Let_def)

text \<open>The store after one ingest is not empty, and limit 0 still lists nothing.\<close>

theorem list_news_limit_zero_witness:
  "news_docs one_article \<noteq> [] \<and> fst (list_news one_article 0 None None) = Inr []"
proof -
  have f: "fault (empty_store\<lparr>colls := [(str ''news'',
      [\<lparr>doc_id = [0x61], doc_fields = model_dump (ingest_doc raw_hello)\<rparr>])], issued := 1\<rparr>) = None"
    by (simp add: empty_store_def)
  have n: "news_docs one_article \<noteq> []"
    using ingest_article_stores(1)[OF ingest_connected_hello] by simp
  show ?thesis using list_news_limit_zero[OF one_article_db f] n by simp
qed

section \<open>Ingest: a body without url\<close>

text \<open>
  Claim C7. A request to the ingest route whose body has no \<open>url\<close> is rejected with
  \<open>ValidationFailure\<close>, status 422, and the process is left as it was: no call to the
  storage gateway is recorded and the store is unchanged.
\<close>

theorem ingest_missing_url_rejected:
  assumes "map_of body (str ''url'') = None"
  shows "post_api_ingest e body = (Inl ValidationFailure, e) \<and> status_code ValidationFailure = 422"
  using assms by (simp add: post_api_ingest_def validate_RawArticle_def)

text \<open>A body with source, title and content but no \<open>url\<close> is rejected; nothing is stored.\<close>

theorem ingest_missing_url_rejected_witness:
  "map_of body_no_url (str ''url'') = None \<and>
   post_api_ingest connected body_no_url = (Inl ValidationFailure, connected) \<and>
   calls connected = [] \<and> news_docs connected = []"
proof -
  have h: "map_of body_no_url (str ''url'') = None"
    by (simp add: body_no_url_def str_def)
  show ?thesis
    using h ingest_missing_url_rejected[OF h, of connected]
    by (simp add: connected_def news_docs_def empty_store_def find_docs_def)
qed

section \<open>No connection\<close>

text \<open>
  Claim C8. When there is no connection handle, the list operation and the ingest
  operation both fail with the \<open>HTTPException\<close> of status 500 and leave the process as
  it was, so that no storage call is made. An ingest that succeeds returns an object with
  an \<open>id\<close> string and the status \<open>ok\<close>, after exactly one call to the storage gateway.
\<close>

theorem no_connection_service_unavailable:
  "(db e = None \<longrightarrow>
      list_news e limit sentiment' ticker' = (Inl (HTTPException 500 (str ''Database not available'')), e) \<and>
      ingest_article e payload = (Inl (HTTPException 500 (str ''Database not available'')), e) \<and>
      status_code (HTTPException 500 (str ''Database not available'')) = 500) \<and>
   (\<forall>r e'. ingest_article e payload = (Inr r, e') \<longrightarrow>
      status r = str ''ok'' \<and> db e \<noteq> None \<and>
      calls e' = calls e @ [CreateDocument (str ''news'') (ingest_doc payload)])"
proof -
  have "db e \<noteq> None" if "ingest_article e payload = (Inr r, e')" for r e'
    using that by (cases "db e") (auto simp: ingest_article_def)
  then show ?thesis
    using ingest_article_stores(2,3)
    by (auto simp: list_news_def ingest_article_def)
qed

text \<open>Both cases: the process without a connection, and the connected one.\<close>

theorem no_connection_service_unavailable_witness:
  "db disconnected = None \<and>
   list_news disconnected 20 None None = (Inl (HTTPException 500 (str ''Database not available'')), disconnected) \<and>
   ingest_article disconnected raw_hello = (Inl (HTTPException 500 (str ''Database not available'')), disconnected) \<and>
   calls disconnected = [] \<and>
   ingest_article connected raw_hello = (Inr \<lparr>ingest_result.id' = [0x61], status = str ''ok''\<rparr>, one_article)"
proof -
  have d: "db disconnected = None" by (simp add: disconnected_def)
  have c: "calls disconnected = []" by (simp add: disconnected_def)
  show ?thesis
    using d c no_connection_service_unavailable[of disconnected 20 None None raw_hello]
      no_connection_service_unavailable[of connected 20 None None raw_hello]
      ingest_connected_hello
    by simp
qed

section \<open>Diagnostics never raise\<close>

text \<open>
  Claim C9. In every state of the connection the diagnostics return a response and raise
  nothing. Without a connection the \<open>database\<close> field says that the database is not
  initialized, the status is \<open>Not Connected\<close> and no collection is listed. With a
  connection the collections listed are the first ten names, and an error of the store
  is folded into the \<open>database\<close> field, cut to 80 characters.
\<close>

theorem test_database_never_raises:
  "\<exists>r. test_database e = Inr r \<and>
       length (collections r) \<le> 10 \<and>
       (db e = None \<longrightarrow>
          database r = [0x26A0, 0xFE0F] @ str ''  Available but not initialized'' \<and>
          connection_status r = str ''Not Connected'' \<and> collections r = []) \<and>
       (\<forall>s. db e = Some s \<longrightarrow>
          (\<forall>names. list_collection_names s = Inr names \<longrightarrow> collections r = take 10 names) \<and>
          (\<forall>msg. list_collection_names s = Inl msg \<longrightarrow>
             collections r = [] \<and>
             database r = [0x26A0, 0xFE0F] @ str ''  Connected but Error: '' @ take 80 msg))"
  by (cases "db e")
     (auto simp: test_database_def test_database_try_def Let_def split: sum.splits)

text \<open>The three cases: no connection, twelve collections, a store that fails.\<close>

theorem test_database_never_raises_witness:
  "test_database disconnected =
     Inr \<lparr>backend = [0x2705] @ str '' Running'',
          database = [0x26A0, 0xFE0F] @ str ''  Available but not initialized'',
          database_url = None, database_name = None,
          connection_status = str ''Not Connected'', collections = []\<rparr> \<and>
   test_database twelve_collections =
     Inr \<lparr>backend = [0x2705] @ str '' Running'',
          database = [0x2705] @ str '' Connected & Working'',
          database_url = Some ([0x2705] @ str '' Set''), database_name = Some (str ''app''),
          connection_status = str ''Connected'',
          collections = [str ''a'', str ''b'', str ''c'', str ''d'', str ''e'', str ''f'', str ''g'', str ''h'', str ''i'', str ''j'']\<rparr> \<and>
   test_database faulty =
     Inr \<lparr>backend = [0x2705] @ str '' Running'',
          database = [0x26A0, 0xFE0F] @ str ''  Connected but Error: timeout'',
          database_url = Some ([0x2705] @ str '' Set''), database_name = Some ([0x274C] @ str '' Not Set''),
          connection_status = str ''Connected'', collections = []\<rparr>"
  using test_database_never_raises[of disconnected] test_database_never_raises[of twelve_collections]
    test_database_never_raises[of faulty]
  by (simp add: test_database_def test_database_try_def Let_def disconnected_def
      twelve_collections_def faulty_def empty_store_def list_collection_names_def truthy_def
      opt_or_def py_or_def str_def)

lemma responses_acc:
  "responses items acc = Inr rs \<Longrightarrow>
     \<exists>rs'. rs = acc @ rs' \<and> list_all2 (\<lambda>it r. response_of it = Inr r) items rs'"
proof (induction items arbitrary: acc)
  case Nil
  then show ?case by simp
next
  case (Cons it items)
  from Cons.prems obtain r where r: "response_of it = Inr r"
    and rest: "responses items (acc @ [r]) = Inr rs"
    by (auto split: sum.splits)
  from Cons.IH[OF rest] obtain rs' where "rs = (acc @ [r]) @ rs'"
    and "list_all2 (\<lambda>it r. response_of it = Inr r) items rs'" by blast
  then have "rs = acc @ (r # rs') \<and> list_all2 (\<lambda>it r. response_of it = Inr r) (it # items) (r # rs')"
    using r by simp
  then show ?case by blast
qed

lemma responses_all:
  "list_all2 (\<lambda>it r. response_of it = Inr r) items rs' \<Longrightarrow> responses items acc = Inr (acc @ rs')"
proof (induction items arbitrary: acc rs')
  case Nil
  then show ?case by simp
next
  case (Cons it items)
  then obtain r rs'' where "rs' = r # rs''" "response_of it = Inr r"
    "list_all2 (\<lambda>it r. response_of it = Inr r) items rs''"
    by (auto simp: list_all2_Cons1)
  then show ?case using Cons.IH[of rs'' "acc @ [r]"] by simp
qed

lemma list_all2_right:
  "list_all2 P xs ys \<Longrightarrow> y \<in> set ys \<Longrightarrow> \<exists>x\<in>set xs. P x y"
  by (induction rule: list_all2_induct) auto

lemma list_news_Inr:
  assumes "list_news e limit sentiment' ticker' = (Inr rs, e')"
  shows "calls e' = calls e @ [GetDocuments (str ''news'') (build_filter sentiment' ticker') limit]"
    and "list_all2 (\<lambda>it r. response_of it = Inr r)
           (take (nat limit) (filter (matches (build_filter sentiment' ticker')) (news_docs e))) rs"
    and "db e' = db e"
  using assms
  by (auto simp: list_news_def get_documents_def Let_def news_docs_def
      split: option.splits sum.splits dest: responses_acc)

lemma list_news_connected:
  assumes "db e = Some s" and "fault s = None"
    and "list_all2 (\<lambda>it r. response_of it = Inr r)
           (take (nat limit) (filter (matches (build_filter sentiment' ticker')) (news_docs e))) rs"
  shows "fst (list_news e limit sentiment' ticker') = Inr rs"
  using assms responses_all[OF assms(3), of "[]"]
  by (simp add: list_news_def get_documents_def Let_def news_docs_def)

lemma build_filter_cases:
  "build_filter sentiment' ticker' =
     (case sentiment' of None \<Rightarrow> [] | Some x \<Rightarrow> if x = [] then [] else [(str ''sentiment'', VStr x)]) @
     (case ticker' of None \<Rightarrow> [] | Some x \<Rightarrow> if x = [] then [] else [(str ''ticker'', VStr x)])"
  by (simp add: build_filter_def truthy_def Let_def split: option.splits)

lemma matches_Nil: "matches [] it"
  by (simp add: matches_def)

lemma as_Inl:
  "as_str v = Inl err \<Longrightarrow> err = ValidationError"
  "as_opt_str v = Inl err \<Longrightarrow> err = ValidationError"
  "as_opt_datetime v = Inl err \<Longrightarrow> err = ValidationError"
  "as_opt_list v = Inl err \<Longrightarrow> err = ValidationError"
  by (cases v; simp)+

lemma response_of_Inl: "response_of it = Inl err \<Longrightarrow> err = ValidationError"
  by (auto simp: response_of_def Let_def sum_bind_def split: sum.splits dest: as_Inl)

lemma responses_Inl: "responses items acc = Inl err \<Longrightarrow> err = ValidationError"
  by (induction items arbitrary: acc) (auto split: sum.splits dest: response_of_Inl)

lemma list_all2_left:
  "list_all2 P xs ys \<Longrightarrow> x \<in> set xs \<Longrightarrow> \<exists>y\<in>set ys. P x y"
  by (induction rule: list_all2_induct) auto

lemma list_news_fst:
  "fst (list_news e limit sentiment' ticker') =
     (case db e of
        None \<Rightarrow> Inl (HTTPException 500 (str ''Database not available''))
      | Some s \<Rightarrow>
          (case fault s of
             Some m \<Rightarrow> Inl (ReadFailure m)
           | None \<Rightarrow> responses (take (nat limit)
               (filter (matches (build_filter sentiment' ticker')) (news_docs e))) []))"
  by (auto simp: list_news_def get_documents_def Let_def news_docs_def split: option.splits sum.splits)

lemma list_news_calls:
  "db e = Some s \<Longrightarrow>
   calls (snd (list_news e limit sentiment' ticker')) =
     calls e @ [GetDocuments (str ''news'') (build_filter sentiment' ticker') limit]"
  by (auto simp: list_news_def get_documents_def Let_def split: option.splits sum.splits)

section \<open>List: the filter\<close>

text \<open>
  Claim C2, as the code has it. The filter has an exact-match entry for \<open>sentiment\<close>
  (for \<open>ticker\<close>) exactly when that parameter is given and is not the empty string, and
  with a connection the list operation queries the \<open>news\<close> collection once with that
  filter and the limit. The documents selected are the first \<open>limit\<close> documents matching
  the filter, in storage order. The operation returns a sequence exactly when there is a
  connection, the store answers and every selected document gets a response; the
  sequence is then the responses of all the selected documents, in order. If a selected
  document gets no response, the operation fails with a validation error. With a
  non-empty sentiment parameter every selected document, and every returned response,
  has exactly that sentiment. When neither parameter is given as a non-empty string, the
  selected documents are the first \<open>limit\<close> documents of the collection, whatever their
  fields.
\<close>

theorem list_news_filter:
  "(\<forall>k v. (k, v) \<in> set (build_filter sentiment' ticker') \<longleftrightarrow>
      (\<exists>x. x \<noteq> [] \<and> v = VStr x \<and>
           (k = str ''sentiment'' \<and> sentiment' = Some x \<or> k = str ''ticker'' \<and> ticker' = Some x))) \<and>
   (db e \<noteq> None \<longrightarrow>
      calls (snd (list_news e limit sentiment' ticker')) =
        calls e @ [GetDocuments (str ''news'') (build_filter sentiment' ticker') limit]) \<and>
   (\<forall>rs. fst (list_news e limit sentiment' ticker') = Inr rs \<longleftrightarrow>
      (\<exists>s. db e = Some s \<and> fault s = None) \<and>
      list_all2 (\<lambda>it r. response_of it = Inr r)
        (take (nat limit) (filter (matches (build_filter sentiment' ticker')) (news_docs e))) rs) \<and>
   ((\<exists>s. db e = Some s \<and> fault s = None) \<and>
    (\<exists>it \<in> set (take (nat limit) (filter (matches (build_filter sentiment' ticker')) (news_docs e))).
       \<forall>r. response_of it \<noteq> Inr r) \<longrightarrow>
      fst (list_news e limit sentiment' ticker') = Inl ValidationError) \<and>
   (\<forall>x. sentiment' = Some x \<and> x \<noteq> [] \<longrightarrow>
      (\<forall>it \<in> set (take (nat limit) (filter (matches (build_filter sentiment' ticker')) (news_docs e))).
         map_of (doc_fields it) (str ''sentiment'') = Some (VStr x)) \<and>
      (\<forall>rs. fst (list_news e limit sentiment' ticker') = Inr rs \<longrightarrow>
         (\<forall>r \<in> set rs. NewsResponse.sentiment r = x))) \<and>
   ((sentiment' = None \<or> sentiment' = Some []) \<and> (ticker' = None \<or> ticker' = Some []) \<longrightarrow>
      take (nat limit) (filter (matches (build_filter sentiment' ticker')) (news_docs e)) =
        take (nat limit) (news_docs e))"
proof -
  let ?f = "build_filter sentiment' ticker'"
  let ?items = "take (nat limit) (filter (matches ?f) (news_docs e))"
  let ?res = "fst (list_news e limit sentiment' ticker')"
  have A: "(k, v) \<in> set ?f \<longleftrightarrow>
      (\<exists>x. x \<noteq> [] \<and> v = VStr x \<and>
           (k = str ''sentiment'' \<and> sentiment' = Some x \<or> k = str ''ticker'' \<and> ticker' = Some x))" for k v
    by (auto simp: build_filter_cases split: option.splits if_splits)
  have B: "db e \<noteq> None \<longrightarrow>
      calls (snd (list_news e limit sentiment' ticker')) =
        calls e @ [GetDocuments (str ''news'') ?f limit]"
    using list_news_calls by auto
  have C: "?res = Inr rs \<longleftrightarrow>
      (\<exists>s. db e = Some s \<and> fault s = None) \<and>
      list_all2 (\<lambda>it r. response_of it = Inr r) ?items rs" for rs
  proof
    assume r: "?res = Inr rs"
    then have c: "\<exists>s. db e = Some s \<and> fault s = None"
      by (auto simp: list_news_fst split: option.splits)
    with r have "responses ?items [] = Inr rs"
      by (auto simp: list_news_fst)
    from responses_acc[OF this] c
    show "(\<exists>s. db e = Some s \<and> fault s = None) \<and>
      list_all2 (\<lambda>it r. response_of it = Inr r) ?items rs" by simp
  next
    assume "(\<exists>s. db e = Some s \<and> fault s = None) \<and>
      list_all2 (\<lambda>it r. response_of it = Inr r) ?items rs"
    then show "?res = Inr rs"
      using list_news_connected by blast
  qed
  have D: "?res = Inl ValidationError"
    if c: "\<exists>s. db e = Some s \<and> fault s = None"
      and b: "\<exists>it \<in> set ?items. \<forall>r. response_of it \<noteq> Inr r"
  proof (cases ?res)
    case (Inl err)
    with c have "responses ?items [] = Inl err"
      by (auto simp: list_news_fst)
    then have "err = ValidationError" by (rule responses_Inl)
    with Inl show ?thesis by simp
  next
    case (Inr rs)
    then have "list_all2 (\<lambda>it r. response_of it = Inr r) ?items rs" using C by blast
    with b have False by (meson list_all2_left)
    then show ?thesis ..
  qed
  have E: "(\<forall>it \<in> set ?items. map_of (doc_fields it) (str ''sentiment'') = Some (VStr x)) \<and>
           (\<forall>rs. ?res = Inr rs \<longrightarrow> (\<forall>r \<in> set rs. NewsResponse.sentiment r = x))"
    if x: "sentiment' = Some x \<and> x \<noteq> []" for x
  proof -
    have m: "map_of (doc_fields it) (str ''sentiment'') = Some (VStr x)" if "it \<in> set ?items" for it
    proof -
      from that have "it \<in> set (filter (matches ?f) (news_docs e))" by (rule in_set_takeD)
      then have "matches ?f it" by simp
      moreover have "(str ''sentiment'', VStr x) \<in> set ?f" using x A by blast
      ultimately show ?thesis by (auto simp: matches_def list_all_iff)
    qed
    have "NewsResponse.sentiment r = x" if "?res = Inr rs" and "r \<in> set rs" for rs r
    proof -
      from that(1) have a: "list_all2 (\<lambda>it r. response_of it = Inr r) ?items rs" using C by blast
      from list_all2_right[OF a that(2)] obtain it where i: "it \<in> set ?items"
        and r: "response_of it = Inr r" by blast
      from response_of_Inr(5)[OF r] m[OF i] show ?thesis by (simp add: dict_get_def)
    qed
    with m show ?thesis by blast
  qed
  have F: "?items = take (nat limit) (news_docs e)"
    if "(sentiment' = None \<or> sentiment' = Some []) \<and> (ticker' = None \<or> ticker' = Some [])"
  proof -
    from that have "?f = []" by (auto simp: build_filter_cases)
    then show ?thesis by (simp add: matches_Nil)
  qed
  from A B C D E F show ?thesis by blast
qed

lemma news_docs_one_article:
  "news_docs one_article = [\<lparr>doc_id = [0x61], doc_fields = model_dump (ingest_doc raw_hello)\<rparr>]"
  using ingest_article_stores(1)[OF ingest_connected_hello]
  by (simp add: news_docs_def connected_def empty_store_def find_docs_def)

lemma summary_hello:
  "NewsArticle.summary_ko (ingest_doc (raw_hello\<lparr>RawArticle.published_at := p\<rparr>)) = str ''hello''"
  by (simp add: ingest_doc_def raw_hello_def Let_def opt_or_def py_or_def strip_def isspace_def str_def)

lemma response_of_hello:
  "response_of \<lparr>doc_id = [0x61], doc_fields = model_dump (ingest_doc raw_hello)\<rparr> = Inr hello_response"
  using summary_hello[of None]
  by (simp add: response_of_stored hello_response_def) (simp add: raw_hello_def)

lemma list_news_one_article:
  assumes "matches (build_filter sentiment' ticker')
      \<lparr>doc_id = [0x61], doc_fields = model_dump (ingest_doc raw_hello)\<rparr>"
  shows "fst (list_news one_article 20 sentiment' ticker') = Inr [hello_response]"
proof -
  have f: "fault (empty_store\<lparr>colls := [(str ''news'',
      [\<lparr>doc_id = [0x61], doc_fields = model_dump (ingest_doc raw_hello)\<rparr>])], issued := 1\<rparr>) = None"
    by (simp add: empty_store_def)
  show ?thesis
    by (rule list_news_connected[OF one_article_db f])
       (simp add: news_docs_one_article assms response_of_hello)
qed

lemma response_of_examples:
  "response_of doc_a = Inr resp_a"
  "response_of doc_b = Inr resp_b"
  "response_of doc_c = Inr resp_c"
  "response_of doc_bad = Inl ValidationError"
  by (simp_all add: response_of_def Let_def dict_get_def sum_bind_def doc_a_def doc_b_def doc_c_def
      doc_bad_def resp_a_def resp_b_def resp_c_def str_def)

lemma three_articles_store:
  "news_docs three_articles = [doc_a, doc_b, doc_c]"
  "\<exists>s. db three_articles = Some s \<and> fault s = None"
  by (simp_all add: three_articles_def news_docs_def find_docs_def empty_store_def)

lemma good_and_bad_store:
  "news_docs good_and_bad = [doc_a, doc_bad]"
  "\<exists>s. db good_and_bad = Some s \<and> fault s = None"
  by (simp_all add: good_and_bad_def news_docs_def find_docs_def empty_store_def)

lemma matches_examples:
  "\<not> matches [(str ''sentiment'', VStr (str ''positive''))] doc_a"
  "matches [(str ''sentiment'', VStr (str ''positive''))] doc_b"
  "matches [(str ''sentiment'', VStr (str ''positive''))] doc_c"
  "\<not> matches [(str ''sentiment'', VStr (str ''positive'')), (str ''ticker'', VStr (str ''AAPL''))] doc_a"
  "matches [(str ''sentiment'', VStr (str ''positive'')), (str ''ticker'', VStr (str ''AAPL''))] doc_b"
  "\<not> matches [(str ''sentiment'', VStr (str ''positive'')), (str ''ticker'', VStr (str ''AAPL''))] doc_c"
  by (simp_all add: matches_def doc_a_def doc_b_def doc_c_def str_def)

lemma build_filter_examples:
  "build_filter (Some (str ''positive'')) None = [(str ''sentiment'', VStr (str ''positive''))]"
  "build_filter (Some (str ''positive'')) (Some (str ''AAPL'')) =
     [(str ''sentiment'', VStr (str ''positive'')), (str ''ticker'', VStr (str ''AAPL''))]"
  "build_filter None None = []"
  "build_filter (Some []) None = []"
  by (simp_all add: build_filter_cases str_def)

text \<open>
  On the store of three documents: the filter for \<open>sentiment = positive\<close> and
  \<open>ticker = AAPL\<close> has both entries; \<open>sentiment = positive\<close> lists the two positive
  documents and not the neutral one, with the ticker only one of them; without filters all
  three are listed, and the first two with limit 2. On the store with a document that gets
  no response, the call without filters fails.
\<close>

theorem list_news_filter_witness:
  "build_filter (Some (str ''positive'')) (Some (str ''AAPL'')) =
     [(str ''sentiment'', VStr (str ''positive'')), (str ''ticker'', VStr (str ''AAPL''))] \<and>
   news_docs three_articles = [doc_a, doc_b, doc_c] \<and>
   fst (list_news three_articles 20 (Some (str ''positive'')) None) = Inr [resp_b, resp_c] \<and>
   fst (list_news three_articles 20 (Some (str ''positive'')) (Some (str ''AAPL''))) = Inr [resp_b] \<and>
   fst (list_news three_articles 20 None None) = Inr [resp_a, resp_b, resp_c] \<and>
   fst (list_news three_articles 2 None None) = Inr [resp_a, resp_b] \<and>
   fst (list_news good_and_bad 20 None None) = Inl ValidationError"
proof -
  note iff = list_news_filter[THEN conjunct2, THEN conjunct2, THEN conjunct1, THEN spec, THEN iffD2]
  note err = list_news_filter[THEN conjunct2, THEN conjunct2, THEN conjunct2, THEN conjunct1, THEN mp]
  have 1: "fst (list_news three_articles 20 (Some (str ''positive'')) None) = Inr [resp_b, resp_c]"
    by (rule iff)
       (simp add: three_articles_store build_filter_examples matches_examples response_of_examples)
  have 2: "fst (list_news three_articles 20 (Some (str ''positive'')) (Some (str ''AAPL''))) = Inr [resp_b]"
    by (rule iff)
       (simp add: three_articles_store build_filter_examples matches_examples response_of_examples)
  have 3: "fst (list_news three_articles 20 None None) = Inr [resp_a, resp_b, resp_c]"
    by (rule iff)
       (simp add: three_articles_store build_filter_examples matches_Nil response_of_examples)
  have 4: "fst (list_news three_articles 2 None None) = Inr [resp_a, resp_b]"
    by (rule iff)
       (simp add: three_articles_store build_filter_examples matches_Nil response_of_examples
          numeral_2_eq_2)
  have 5: "fst (list_news good_and_bad 20 None None) = Inl ValidationError"
    by (rule err)
       (simp add: good_and_bad_store build_filter_examples matches_Nil response_of_examples)
  from 1 2 3 4 5 show ?thesis
    by (simp add: build_filter_examples three_articles_store)
qed

text \<open>
  Claim C2 as stated fails in two places. A parameter that is given but empty,
  \<open>sentiment = ""\<close>, puts nothing in the filter, and the call returns a document whose
  sentiment is \<open>neutral\<close>, not the empty string. And without filters the documents are not
  returned regardless of their field values: on a store whose second document has
  \<open>title_ko\<close> \<open>None\<close> the call returns no sequence, but a validation error.
\<close>

theorem list_news_filter_counterexample:
  "build_filter (Some []) None = [] \<and>
   fst (list_news one_article 20 (Some []) None) = Inr [hello_response] \<and>
   NewsResponse.sentiment hello_response = str ''neutral'' \<and>
   str ''neutral'' \<noteq> [] \<and>
   news_docs good_and_bad = [doc_a, doc_bad] \<and>
   fst (list_news good_and_bad 20 None None) = Inl ValidationError"
proof -
  have "fst (list_news one_article 20 (Some []) None) = Inr [hello_response]"
    by (rule list_news_one_article) (simp add: build_filter_examples matches_Nil)
  moreover have "fst (list_news good_and_bad 20 None None) = Inl ValidationError"
    by (simp add: list_news_fst good_and_bad_def empty_store_def news_docs_def find_docs_def
        build_filter_examples matches_Nil response_of_examples)
  ultimately show ?thesis
    by (simp add: build_filter_examples good_and_bad_store hello_response_def str_def)
qed

lemma ingest_article_db:
  assumes "ingest_article e payload = (Inr r, e')"
  shows "\<exists>s'. db e' = Some s' \<and> fault s' = None"
  using assms
  by (auto simp: ingest_article_def create_document_def Let_def split: option.splits)

section \<open>Round trip\<close>

text \<open>
  Claim C3. In a connected store that answers, whose \<open>news\<close> documents are fewer than
  the limit and are all listable, ingesting the payload with url \<open>http://x\<close>, source
  \<open>S\<close>, title \<open>T\<close> and content \<open>hello\<close> (no ticker, any publication time) succeeds, and
  listing the news then yields, after the responses of the documents stored before, a
  response with the identifier the ingest returned, \<open>title_ko = T\<close>,
  \<open>summary_ko = hello\<close>, \<open>sentiment = neutral\<close> and no ticker.
\<close>

theorem ingest_then_list_round_trip:
  assumes "db e = Some s" and "fault s = None"
    and "list_all2 (\<lambda>it r. response_of it = Inr r) (news_docs e) earlier"
    and "int (length (news_docs e)) < limit"
  shows "\<exists>r e' resp.
           ingest_article e (raw_hello\<lparr>RawArticle.published_at := p\<rparr>) = (Inr r, e') \<and>
           fst (list_news e' limit None None) = Inr (earlier @ [resp]) \<and>
           NewsResponse.id' resp = ingest_result.id' r \<and>
           NewsResponse.title_ko resp = str ''T'' \<and>
           NewsResponse.summary_ko resp = str ''hello'' \<and>
           NewsResponse.sentiment resp = str ''neutral'' \<and>
           NewsResponse.ticker resp = None"
proof -
  let ?p = "raw_hello\<lparr>RawArticle.published_at := p\<rparr>"
  from ingest_article_connected[OF assms(1,2)] obtain r e'
    where i: "ingest_article e ?p = (Inr r, e')" by blast
  let ?d = "\<lparr>doc_id = ingest_result.id' r, doc_fields = model_dump (ingest_doc ?p)\<rparr>"
  let ?resp = "\<lparr>NewsResponse.id' = ingest_result.id' r, source = str ''S'', title_ko = str ''T'',
     summary_ko = str ''hello'', sentiment = str ''neutral'', published_at = p,
     tags = Some [], ticker = None\<rparr>"
  have d: "news_docs e' = news_docs e @ [?d]" by (rule ingest_article_stores(1)[OF i])
  from ingest_article_db[OF i] obtain s' where s': "db e' = Some s'" "fault s' = None" by blast
  have resp: "response_of ?d = Inr ?resp"
    using summary_hello[of p] by (simp add: response_of_stored) (simp add: raw_hello_def)
  have n: "build_filter None None = []"
    by (simp add: build_filter_def truthy_def Let_def)
  have len: "length (news_docs e @ [?d]) \<le> nat limit" using assms(4) by simp
  have "list_all2 (\<lambda>it r. response_of it = Inr r)
      (take (nat limit) (filter (matches (build_filter None None)) (news_docs e'))) (earlier @ [?resp])"
    unfolding n d using len assms(3) resp
    by (simp add: matches_Nil list_all2_appendI)
  from list_news_connected[OF s' this]
  have "fst (list_news e' limit None None) = Inr (earlier @ [?resp])" .
  with i show ?thesis by fastforce
qed

text \<open>From the empty store, with the default limit 20, the listing is exactly that response.\<close>

theorem ingest_then_list_round_trip_witness:
  "ingest_article connected raw_hello = (Inr \<lparr>ingest_result.id' = [0x61], status = str ''ok''\<rparr>, one_article) \<and>
   fst (list_news one_article 20 None None) = Inr [hello_response] \<and>
   NewsResponse.title_ko hello_response = str ''T'' \<and>
   NewsResponse.summary_ko hello_response = str ''hello'' \<and>
   NewsResponse.sentiment hello_response = str ''neutral'' \<and>
   NewsResponse.ticker hello_response = None"
proof -
  have c: "db connected = Some empty_store" by (simp add: connected_def)
  have f: "fault empty_store = None" by (simp add: empty_store_def)
  have e: "list_all2 (\<lambda>it r. response_of it = Inr r) (news_docs connected) []"
    by (simp add: news_docs_def connected_def empty_store_def find_docs_def)
  have l: "int (length (news_docs connected)) < 20"
    by (simp add: news_docs_def connected_def empty_store_def find_docs_def)
  have p: "raw_hello\<lparr>RawArticle.published_at := None\<rparr> = raw_hello"
    by (simp add: raw_hello_def)
  have n: "build_filter None None = []"
    by (simp add: build_filter_def truthy_def Let_def)
  have 2: "fst (list_news one_article 20 None None) = Inr [hello_response]"
    by (rule list_news_one_article) (simp add: n matches_Nil)
  from ingest_then_list_round_trip[OF c f e l, of None] ingest_connected_hello 2
  show ?thesis by (simp add: p hello_response_def)
qed

end
